theory Spec2Isabelle
  imports Complex_Main "HOL-Library.Log_Nat"
begin

section \<open>The HeroSMS client: response classification and decoding\<close>

text \<open>
  A shallow embedding of the response protocol layer of the client
  (\<^verbatim>\<open>client.ts\<close>, \<^verbatim>\<open>errors.ts\<close>): \<^verbatim>\<open>checkForErrors\<close>, \<^verbatim>\<open>request\<close> and the
  decoders \<^verbatim>\<open>getBalance\<close>, \<^verbatim>\<open>getNumber\<close>, \<^verbatim>\<open>getStatus\<close>, with the pass-through
  endpoints. The HTTP exchange is outside the model: every function takes the
  value of \<^verbatim>\<open>response.data\<close> as its argument.

  A response body is a \<^typ>\<open>string\<close>, a list of 8-bit characters; a JavaScript string is
  a list of UTF-16 code units, so the model covers the bodies whose code units are below
  256. A thrown exception is the \<open>Inl\<close> side of a sum.
\<close>

subsection \<open>JavaScript strings\<close>

text \<open>\<^verbatim>\<open>s.startsWith(p)\<close>.\<close>

fun startsWith :: "string \<Rightarrow> string \<Rightarrow> bool" where
  "startsWith s [] = True"
| "startsWith [] (p # ps) = False"
| "startsWith (c # cs) (p # ps) = (c = p \<and> startsWith cs ps)"

text \<open>
  \<^verbatim>\<open>s.split(sep)\<close> for a separator of one character: the fields between the separators,
  \<^verbatim>\<open>''.split(':')\<close> being \<^verbatim>\<open>['']\<close>.
\<close>

fun split :: "char \<Rightarrow> string \<Rightarrow> string list" where
  "split sep [] = [[]]"
| "split sep (c # cs) =
     (if c = sep then [] # split sep cs
      else (case split sep cs of [] \<Rightarrow> [[c]] | f # fs \<Rightarrow> (c # f) # fs))"

text \<open>\<^verbatim>\<open>xs[i]\<close> on an array: \<^verbatim>\<open>undefined\<close> (here \<open>None\<close>) out of range.\<close>

fun index :: "'a list \<Rightarrow> nat \<Rightarrow> 'a option" where
  "index [] i = None"
| "index (x # xs) 0 = Some x"
| "index (x # xs) (Suc i) = index xs i"

text \<open>
  \<^verbatim>\<open>x || d\<close> where \<^verbatim>\<open>x\<close> is a string or \<^verbatim>\<open>undefined\<close>: both \<^verbatim>\<open>undefined\<close> and
  the empty string are falsy.
\<close>

fun orElse :: "string option \<Rightarrow> string \<Rightarrow> string" where
  "orElse None d = d"
| "orElse (Some []) d = d"
| "orElse (Some (c # cs)) d = c # cs"

text \<open>The second field of \<^verbatim>\<open>response.split(':')\<close>, that is \<^verbatim>\<open>response.split(':')[1]\<close>.\<close>

definition secondField :: "string \<Rightarrow> string option" where
  "secondField response = index (split (CHR '':'') response) 1"

subsection \<open>JavaScript numbers, \<^verbatim>\<open>parseFloat\<close> and \<^verbatim>\<open>parseInt\<close>\<close>

text \<open>
  A Number is a double: \<open>NaN\<close>, an infinity, the negative zero, or \<open>Num q\<close> for any
  other finite double, \<open>q\<close> being its value (\<open>Num 0\<close> is the positive zero).
\<close>

datatype number = NaN | PosInfinity | NegInfinity | NegZero | Num rat

text \<open>
  The conversion of a positive fraction \<open>a / b\<close> to a double. \<open>floorLog2 a b\<close> is the
  exponent \<open>e\<close> with \<open>2 ^ e \<le> a / b < 2 ^ (e + 1)\<close>; \<open>bitlen\<close> is the number of binary
  digits of an integer.
\<close>

definition floorLog2 :: "int \<Rightarrow> int \<Rightarrow> int" where
  "floorLog2 a b =
     (let k = bitlen a - bitlen b
      in if b * 2 ^ nat k \<le> a * 2 ^ nat (- k) then k else k - 1)"

text \<open>The integer nearest to \<open>n / d\<close>, the even one of the two when \<open>n / d\<close> is half way.\<close>

definition roundHalfEven :: "int \<Rightarrow> int \<Rightarrow> int" where
  "roundHalfEven n d =
     (let q = n div d; r = n mod d
      in if 2 * r < d then q else if d < 2 * r then q + 1 else if even q then q else q + 1)"

text \<open>
  \<open>toNumber neg a b\<close> is the double nearest to \<open>a / b\<close> (for \<open>0 \<le> a\<close> and \<open>0 < b\<close>), negated
  when \<open>neg\<close>: the fraction is rounded to 53 binary digits, to fewer below the exponent
  \<open>- 1022\<close> (the subnormal range), ties to even; a result of \<open>2 ^ 1024\<close> or more is an
  infinity and a result of 0 keeps the sign. This is the correctly rounded conversion
  that Node performs; the language standard also allows an engine to drop the digits of
  a literal after the twentieth significant one before it rounds.
\<close>

definition toNumber :: "bool \<Rightarrow> int \<Rightarrow> int \<Rightarrow> number" where
  "toNumber neg a b =
     (if a = 0 then (if neg then NegZero else Num 0)
      else
        (let s = max (floorLog2 a b) (- 1022) - 52;
             n = roundHalfEven (a * 2 ^ nat (- s)) (b * 2 ^ nat s)
         in if n = 0 then (if neg then NegZero else Num 0)
            else if 2 ^ 1024 \<le> n * 2 ^ nat s then (if neg then NegInfinity else PosInfinity)
            else Num ((if neg then - of_int n else of_int n) * 2 ^ nat s / 2 ^ nat (- s))))"

text \<open>The double nearest to \<open>d * 10 ^ k\<close>, negated when \<open>neg\<close>.\<close>

definition decimalNumber :: "bool \<Rightarrow> nat \<Rightarrow> int \<Rightarrow> number" where
  "decimalNumber neg d k =
     (if 0 \<le> k then toNumber neg (int d * 10 ^ nat k) 1
      else toNumber neg (int d) (10 ^ nat (- k)))"

text \<open>
  The white space and line terminators that \<^verbatim>\<open>parseFloat\<close> and \<^verbatim>\<open>parseInt\<close> skip at
  the start: TAB, LF, VT, FF, CR, space and the no-break space.
\<close>

definition isWhiteSpace :: "char \<Rightarrow> bool" where
  "isWhiteSpace c \<longleftrightarrow>
     c \<in> set [CHR 0x09, CHR 0x0A, CHR 0x0B, CHR 0x0C, CHR 0x0D, CHR 0x20, CHR 0xA0]"

text \<open>The line terminators, which \<^verbatim>\<open>.\<close> of a regular expression does not match: LF, CR.\<close>

definition isLineTerminator :: "char \<Rightarrow> bool" where
  "isLineTerminator c \<longleftrightarrow> c \<in> set [CHR 0x0A, CHR 0x0D]"

text \<open>\<^verbatim>\<open>\d\<close> of a regular expression, and a decimal digit of a numeric literal.\<close>

definition isDigit :: "char \<Rightarrow> bool" where
  "isDigit c \<longleftrightarrow> c \<in> set ''0123456789''"

definition digitValue :: "char \<Rightarrow> nat" where
  "digitValue c = of_char c - 48"

text \<open>The value of a run of decimal digits.\<close>

definition digitsValue :: "string \<Rightarrow> nat" where
  "digitsValue ds = foldl (\<lambda>n c. 10 * n + digitValue c) 0 ds"

text \<open>An optional sign: whether it is a minus, and what follows it.\<close>

fun signOf :: "string \<Rightarrow> bool \<times> string" where
  "signOf [] = (False, [])"
| "signOf (c # cs) =
     (if c = CHR ''-'' then (True, cs)
      else if c = CHR ''+'' then (False, cs)
      else (False, c # cs))"

text \<open>
  The exponent part at the start of a string, if there is one: \<^verbatim>\<open>e\<close> or \<^verbatim>\<open>E\<close>, an
  optional sign and at least one digit. Without one the exponent is 0.
\<close>

fun exponentPart :: "string \<Rightarrow> int" where
  "exponentPart [] = 0"
| "exponentPart (c # cs) =
     (if c = CHR ''e'' \<or> c = CHR ''E'' then
        (let (neg, r) = signOf cs; ds = takeWhile isDigit r
         in if ds = [] then 0
            else if neg then - int (digitsValue ds) else int (digitsValue ds))
      else 0)"

text \<open>
  \<^verbatim>\<open>parseFloat(s)\<close>: skip leading white space, then take the longest prefix that is a
  decimal literal (an optional sign, then \<^verbatim>\<open>Infinity\<close>, or digits with an optional
  fraction and an optional exponent, or a fraction beginning with the point); \<open>NaN\<close>
  when no prefix is one, and otherwise the double nearest to the value of the literal.
\<close>

definition parseFloat :: "string \<Rightarrow> number" where
  "parseFloat s =
     (let (neg, u) = signOf (dropWhile isWhiteSpace s)
      in if startsWith u ''Infinity'' then (if neg then NegInfinity else PosInfinity)
         else
           (let ip = takeWhile isDigit u;
                r1 = dropWhile isDigit u;
                (fp, r2) = (case r1 of
                              [] \<Rightarrow> ([], r1)
                            | c # r \<Rightarrow> if c = CHR ''.''
                                       then (takeWhile isDigit r, dropWhile isDigit r)
                                       else ([], r1))
            in if ip = [] \<and> fp = [] then NaN
               else decimalNumber neg (digitsValue (ip @ fp))
                      (exponentPart r2 - int (length fp))))"

text \<open>
  \<^verbatim>\<open>parseInt(s, 10)\<close>: skip leading white space, an optional sign, then the longest run
  of decimal digits; \<open>NaN\<close> when there is no digit, and otherwise the double nearest to
  the integer that the digits denote.
\<close>

definition parseInt10 :: "string \<Rightarrow> number" where
  "parseInt10 s =
     (let (neg, u) = signOf (dropWhile isWhiteSpace s); ds = takeWhile isDigit u
      in if ds = [] then NaN else toNumber neg (int (digitsValue ds)) 1)"

text \<open>
  Whether a string begins with a number as \<^verbatim>\<open>parseFloat\<close> reads one: after leading white
  space and an optional sign come \<^verbatim>\<open>Infinity\<close>, or a digit, or a point and a digit.
\<close>

definition beginsNumber :: "string \<Rightarrow> bool" where
  "beginsNumber s =
     (let u = snd (signOf (dropWhile isWhiteSpace s))
      in startsWith u ''Infinity'' \<or>
         (case u of
            [] \<Rightarrow> False
          | c # r \<Rightarrow> isDigit c \<or>
                     (c = CHR ''.'' \<and> (case r of [] \<Rightarrow> False | d # r' \<Rightarrow> isDigit d))))"

subsection \<open>Regular expressions\<close>

text \<open>
  \<^verbatim>\<open>s.match(re)\<close> for a regular expression without flags searches for the leftmost
  position of \<open>s\<close> at which \<open>re\<close> matches; \<open>search m s\<close> does so for a matcher \<open>m\<close>
  that matches at the start of its argument.
\<close>

fun search :: "(string \<Rightarrow> 'a option) \<Rightarrow> string \<Rightarrow> 'a option" where
  "search m [] = m []"
| "search m (c # cs) = (case m (c # cs) of Some r \<Rightarrow> Some r | None \<Rightarrow> search m cs)"

text \<open>The rest of \<open>s\<close> after the literal \<open>p\<close>, when \<open>s\<close> starts with it.\<close>

fun afterLiteral :: "string \<Rightarrow> string \<Rightarrow> string option" where
  "afterLiteral [] s = Some s"
| "afterLiteral (p # ps) [] = None"
| "afterLiteral (p # ps) (c # cs) = (if c = p then afterLiteral ps cs else None)"

text \<open>
  \<^verbatim>\<open>/ACCESS_BALANCE:(.+)/\<close> at the start of \<open>s\<close>; the result is group 1. The greedy
  \<^verbatim>\<open>.+\<close> ends the pattern, so it takes every character up to the next line terminator,
  and needs one.
\<close>

definition balanceAt :: "string \<Rightarrow> string option" where
  "balanceAt s =
     (case afterLiteral ''ACCESS_BALANCE:'' s of
        None \<Rightarrow> None
      | Some r \<Rightarrow>
          (let g = takeWhile (\<lambda>c. \<not> isLineTerminator c) r
           in if g = [] then None else Some g))"

text \<open>
  \<^verbatim>\<open>/ACCESS_NUMBER:(\d+):(.+)/\<close> at the start of \<open>s\<close>; the result is groups 1 and 2.
  The greedy \<^verbatim>\<open>\d+\<close> takes every digit; with fewer digits the next character would be
  a digit and not the colon, so backtracking finds no other match.
\<close>

definition numberAt :: "string \<Rightarrow> (string \<times> string) option" where
  "numberAt s =
     (case afterLiteral ''ACCESS_NUMBER:'' s of
        None \<Rightarrow> None
      | Some r \<Rightarrow>
          (let ds = takeWhile isDigit r
           in if ds = [] then None
              else (case dropWhile isDigit r of
                      [] \<Rightarrow> None
                    | c # r' \<Rightarrow>
                        if c = CHR '':'' then
                          (let g = takeWhile (\<lambda>c. \<not> isLineTerminator c) r'
                           in if g = [] then None else Some (ds, g))
                        else None)))"

subsection \<open>Errors (\<^verbatim>\<open>errors.ts\<close>)\<close>

text \<open>
  One constructor for each error class, with the arguments of its constructor call:
  \<open>HeroSMSError code message rawResponse\<close>, \<open>AuthenticationError code rawResponse\<close>,
  \<open>WrongMaxPriceError rawResponse minimumPrice\<close>, \<open>BannedError rawResponse bannedUntil\<close>,
  and \<open>rawResponse\<close> alone for the others. \<open>TypeError\<close> is the exception that JavaScript
  itself throws when a string method is called on a value that is not a string.
\<close>

datatype error =
    HeroSMSError string string string
  | NoNumbersError string
  | AuthenticationError string string
  | ActivationNotFoundError string
  | EarlyCancelError string
  | WrongMaxPriceError string number
  | BannedError string string
  | TypeError

text \<open>The field \<^verbatim>\<open>code\<close>, as each class passes it to the base constructor.\<close>

fun errorCode :: "error \<Rightarrow> string option" where
  "errorCode (HeroSMSError c m r) = Some c"
| "errorCode (NoNumbersError r) = Some ''NO_NUMBERS''"
| "errorCode (AuthenticationError c r) = Some c"
| "errorCode (ActivationNotFoundError r) = Some ''NO_ACTIVATION''"
| "errorCode (EarlyCancelError r) = Some ''EARLY_CANCEL_DENIED''"
| "errorCode (WrongMaxPriceError r p) = Some ''WRONG_MAX_PRICE''"
| "errorCode (BannedError r b) = Some ''BANNED''"
| "errorCode TypeError = None"

text \<open>The field \<^verbatim>\<open>rawResponse\<close>; a \<open>TypeError\<close> has none.\<close>

fun rawResponse :: "error \<Rightarrow> string option" where
  "rawResponse (HeroSMSError c m r) = Some r"
| "rawResponse (NoNumbersError r) = Some r"
| "rawResponse (AuthenticationError c r) = Some r"
| "rawResponse (ActivationNotFoundError r) = Some r"
| "rawResponse (EarlyCancelError r) = Some r"
| "rawResponse (WrongMaxPriceError r p) = Some r"
| "rawResponse (BannedError r b) = Some r"
| "rawResponse TypeError = None"

text \<open>The fields \<^verbatim>\<open>minimumPrice\<close> and \<^verbatim>\<open>bannedUntil\<close> of the two classes that have them.\<close>

fun minimumPrice :: "error \<Rightarrow> number option" where
  "minimumPrice (WrongMaxPriceError r p) = Some p"
| "minimumPrice e = None"

fun bannedUntil :: "error \<Rightarrow> string option" where
  "bannedUntil (BannedError r b) = Some b"
| "bannedUntil e = None"

definition ERROR_MESSAGES :: "(string \<times> string) list" where
  "ERROR_MESSAGES =
     [(''BAD_ACTION'', ''Incorrect action specified''),
      (''BAD_KEY'', ''Incorrect API key''),
      (''NO_KEY'', ''API key is missing''),
      (''ERROR_SQL'', ''Server database error''),
      (''BAD_SERVICE'', ''Incorrect service specified''),
      (''BAD_STATUS'', ''Incorrect status specified''),
      (''NO_NUMBERS'', ''No numbers available''),
      (''NO_ACTIVATION'', ''Activation not found''),
      (''WRONG_ACTIVATION_ID'', ''Invalid activation ID''),
      (''WRONG_MAX_PRICE'', ''Maximum price is too low''),
      (''EARLY_CANCEL_DENIED'', ''Cannot cancel within first 2 minutes''),
      (''CHANNELS_LIMIT'', ''Account channels limit reached''),
      (''OPERATORS_NOT_FOUND'', ''No operators found''),
      (''ORDER_ALREADY_EXISTS'', ''Order already exists''),
      (''NO_ACTIVATIONS'', ''No activations found'')]"

subsection \<open>Classification (\<^verbatim>\<open>checkForErrors\<close>, \<^verbatim>\<open>request\<close>)\<close>

definition errorCodes :: "string list" where
  "errorCodes =
     [''BAD_ACTION'', ''BAD_KEY'', ''NO_KEY'', ''ERROR_SQL'', ''BAD_SERVICE'',
      ''BAD_STATUS'', ''NO_NUMBERS'', ''NO_ACTIVATION'', ''WRONG_ACTIVATION_ID'',
      ''EARLY_CANCEL_DENIED'', ''CHANNELS_LIMIT'', ''OPERATORS_NOT_FOUND'',
      ''ORDER_ALREADY_EXISTS'', ''NO_ACTIVATIONS'']"

text \<open>The \<^verbatim>\<open>switch (code)\<close> of \<^verbatim>\<open>checkForErrors\<close>: the error thrown for a matched code.\<close>

definition errorFor :: "string \<Rightarrow> string \<Rightarrow> error" where
  "errorFor code response =
     (if code = ''NO_NUMBERS'' then NoNumbersError response
      else if code = ''BAD_KEY'' \<or> code = ''NO_KEY'' then AuthenticationError code response
      else if code = ''NO_ACTIVATION'' then ActivationNotFoundError response
      else if code = ''EARLY_CANCEL_DENIED'' then EarlyCancelError response
      else HeroSMSError code (orElse (map_of ERROR_MESSAGES code) code) response)"

text \<open>The loop \<^verbatim>\<open>for (const code of errorCodes)\<close>: the first code that matches throws.\<close>

fun scanCodes :: "string list \<Rightarrow> string \<Rightarrow> error + unit" where
  "scanCodes [] response = Inr ()"
| "scanCodes (code # codes) response =
     (if response = code \<or> startsWith response code then Inl (errorFor code response)
      else scanCodes codes response)"

definition checkForErrors :: "string \<Rightarrow> error + unit" where
  "checkForErrors response =
     (if startsWith response ''BANNED:'' then
        Inl (BannedError response (orElse (secondField response) ''unknown''))
      else if startsWith response ''WRONG_MAX_PRICE:'' then
        Inl (WrongMaxPriceError response (parseFloat (orElse (secondField response) ''0'')))
      else scanCodes errorCodes response)"

text \<open>
  The value of \<^verbatim>\<open>response.data\<close>: a string, or data that the transport has already
  decoded from JSON.
\<close>

datatype 'j body = Str string | Structured 'j

text \<open>\<^verbatim>\<open>request\<close>, from \<^verbatim>\<open>const data = response.data\<close> on.\<close>

definition request :: "'j body \<Rightarrow> error + 'j body" where
  "request data =
     (case data of
        Str s \<Rightarrow> (case checkForErrors s of Inl e \<Rightarrow> Inl e | Inr u \<Rightarrow> Inr data)
      | Structured j \<Rightarrow> Inr data)"

subsection \<open>Decoding (\<^verbatim>\<open>getBalance\<close>, \<^verbatim>\<open>getNumber\<close>, \<^verbatim>\<open>getStatus\<close> and the pass-through endpoints)\<close>

definition getBalance :: "'j body \<Rightarrow> error + number" where
  "getBalance data =
     (case request data of
        Inl e \<Rightarrow> Inl e
      | Inr (Structured j) \<Rightarrow> Inl TypeError
      | Inr (Str response) \<Rightarrow>
          (case search balanceAt response of
             None \<Rightarrow> Inl (HeroSMSError ''PARSE_ERROR''
                           (''Unexpected balance response: '' @ response) response)
           | Some g \<Rightarrow> Inr (parseFloat g)))"

record ParsedNumberResponse =
  activationId :: number
  phoneNumber :: string

definition getNumber :: "'j body \<Rightarrow> error + ParsedNumberResponse" where
  "getNumber data =
     (case request data of
        Inl e \<Rightarrow> Inl e
      | Inr (Structured j) \<Rightarrow> Inl TypeError
      | Inr (Str response) \<Rightarrow>
          (case search numberAt response of
             None \<Rightarrow> Inl (HeroSMSError ''PARSE_ERROR''
                           (''Unexpected number response: '' @ response) response)
           | Some (ds, g) \<Rightarrow> Inr \<lparr>activationId = parseInt10 ds, phoneNumber = g\<rparr>))"

text \<open>The optional field \<^verbatim>\<open>code?: string\<close> is \<open>None\<close> when the object has no such field.\<close>

record ParsedStatusResponse =
  status :: string
  code :: "string option"

definition getStatus :: "'j body \<Rightarrow> error + ParsedStatusResponse" where
  "getStatus data =
     (case request data of
        Inl e \<Rightarrow> Inl e
      | Inr (Structured j) \<Rightarrow> Inl TypeError
      | Inr (Str response) \<Rightarrow>
          (if startsWith response ''STATUS_OK:'' then
             Inr \<lparr>status = ''STATUS_OK'', code = secondField response\<rparr>
           else if startsWith response ''STATUS_WAIT_RETRY:'' then
             Inr \<lparr>status = ''STATUS_WAIT_RETRY'', code = secondField response\<rparr>
           else if response = ''STATUS_WAIT_CODE'' then
             Inr \<lparr>status = ''STATUS_WAIT_CODE'', code = None\<rparr>
           else if response = ''STATUS_WAIT_RESEND'' then
             Inr \<lparr>status = ''STATUS_WAIT_RESEND'', code = None\<rparr>
           else if response = ''STATUS_CANCEL'' then
             Inr \<lparr>status = ''STATUS_CANCEL'', code = None\<rparr>
           else Inl (HeroSMSError ''PARSE_ERROR''
                      (''Unexpected status response: '' @ response) response)))"

text \<open>
  The endpoints that return what \<^verbatim>\<open>request\<close> returns: \<^verbatim>\<open>getNumberV2\<close>,
  \<^verbatim>\<open>getStatusV2\<close>, \<^verbatim>\<open>setStatus\<close>, and the reference and list endpoints
  (\<^verbatim>\<open>getActiveActivations\<close>, \<^verbatim>\<open>getHistory\<close>, \<^verbatim>\<open>getCountries\<close>, \<^verbatim>\<open>getServicesList\<close>,
  \<^verbatim>\<open>getOperators\<close>, \<^verbatim>\<open>getPrices\<close>, \<^verbatim>\<open>getTopCountriesByService\<close>,
  \<^verbatim>\<open>getTopCountriesByServiceRank\<close>), all of the same body.
\<close>

definition getNumberV2 :: "'j body \<Rightarrow> error + 'j body" where
  "getNumberV2 data = request data"

definition getStatusV2 :: "'j body \<Rightarrow> error + 'j body" where
  "getStatusV2 data = request data"

definition setStatus :: "'j body \<Rightarrow> error + 'j body" where
  "setStatus data = request data"

definition getActiveActivations :: "'j body \<Rightarrow> error + 'j body" where
  "getActiveActivations data = request data"

definition getHistory :: "'j body \<Rightarrow> error + 'j body" where
  "getHistory data = request data"

definition getCountries :: "'j body \<Rightarrow> error + 'j body" where
  "getCountries data = request data"

definition getServicesList :: "'j body \<Rightarrow> error + 'j body" where
  "getServicesList data = request data"

definition getOperators :: "'j body \<Rightarrow> error + 'j body" where
  "getOperators data = request data"

definition getPrices :: "'j body \<Rightarrow> error + 'j body" where
  "getPrices data = request data"

definition getTopCountriesByService :: "'j body \<Rightarrow> error + 'j body" where
  "getTopCountriesByService data = request data"

definition getTopCountriesByServiceRank :: "'j body \<Rightarrow> error + 'j body" where
  "getTopCountriesByServiceRank data = request data"

section \<open>Properties\<close>

subsection \<open>Strings, fields and searching\<close>

lemma startsWith_iff: "startsWith s p \<longleftrightarrow> (\<exists>t. s = p @ t)"
  by (induction s p rule: startsWith.induct) auto

lemma afterLiteral_Some_iff: "afterLiteral p s = Some r \<longleftrightarrow> s = p @ r"
  by (induction p s rule: afterLiteral.induct) auto

lemma split_not_Nil: "split sep s \<noteq> []"
  by (induction s) (auto split: list.splits)

lemma split_append_sep: "sep \<notin> set a \<Longrightarrow> split sep (a @ sep # r) = a # split sep r"
  by (induction a) (auto split: list.splits)

lemma index_split_0: "index (split sep s) 0 = Some (takeWhile (\<lambda>c. c \<noteq> sep) s)"
  by (induction s) (auto split: list.splits)

lemma secondField_after:
  "CHR '':'' \<notin> set a \<Longrightarrow>
     secondField (a @ CHR '':'' # r) = Some (takeWhile (\<lambda>c. c \<noteq> CHR '':'') r)"
proof -
  assume a: "CHR '':'' \<notin> set a"
  obtain f fs where s: "split (CHR '':'') r = f # fs"
    using split_not_Nil [of "CHR '':''" r] by (cases "split (CHR '':'') r") auto
  have "index (split (CHR '':'') r) 0 = Some f" using s by simp
  then have f: "f = takeWhile (\<lambda>c. c \<noteq> CHR '':'') r" by (simp add: index_split_0)
  show ?thesis
    using a s f by (simp add: secondField_def split_append_sep)
qed

lemma search_here: "m s = Some r \<Longrightarrow> search m s = Some r"
  by (cases s) auto

lemma search_Some_iff:
  "search m s \<noteq> None \<longleftrightarrow> (\<exists>pre suf. s = pre @ suf \<and> m suf \<noteq> None)"
proof (induction s)
  case Nil
  then show ?case by simp
next
  case (Cons c cs)
  show ?case
  proof (cases "m (c # cs)")
    case None
    have "(\<exists>pre suf. c # cs = pre @ suf \<and> m suf \<noteq> None)
          \<longleftrightarrow> (\<exists>pre suf. cs = pre @ suf \<and> m suf \<noteq> None)"
    proof
      assume "\<exists>pre suf. c # cs = pre @ suf \<and> m suf \<noteq> None"
      then obtain pre suf where ps: "c # cs = pre @ suf" "m suf \<noteq> None" by blast
      with None obtain pre' where "pre = c # pre'" by (cases pre) auto
      with ps show "\<exists>pre suf. cs = pre @ suf \<and> m suf \<noteq> None" by auto
    next
      assume "\<exists>pre suf. cs = pre @ suf \<and> m suf \<noteq> None"
      then obtain pre suf where "cs = pre @ suf" "m suf \<noteq> None" by blast
      then have "c # cs = (c # pre) @ suf \<and> m suf \<noteq> None" by simp
      then show "\<exists>pre suf. c # cs = pre @ suf \<and> m suf \<noteq> None" by blast
    qed
    with None Cons.IH show ?thesis by simp
  next
    case (Some r)
    then have "c # cs = [] @ (c # cs) \<and> m (c # cs) \<noteq> None" by simp
    then have "\<exists>pre suf. c # cs = pre @ suf \<and> m suf \<noteq> None" by blast
    with Some show ?thesis by simp
  qed
qed

lemma errorFor_raw: "rawResponse (errorFor c s) = Some s"
  by (simp add: errorFor_def)

lemma scanCodes_raw: "scanCodes cs s = Inl e \<Longrightarrow> rawResponse e = Some s"
  by (induction cs) (auto simp: errorFor_raw split: if_splits)

lemma checkForErrors_raw: "checkForErrors s = Inl e \<Longrightarrow> rawResponse e = Some s"
  by (auto simp: checkForErrors_def split: if_splits dest: scanCodes_raw)

lemma checkForErrors_A: "checkForErrors (CHR ''A'' # t) = Inr ()"
  by (simp add: checkForErrors_def errorCodes_def)

lemma checkForErrors_S: "checkForErrors (CHR ''S'' # t) = Inr ()"
  by (simp add: checkForErrors_def errorCodes_def)

subsection \<open>Numbers\<close>

lemmas parse_eval =
  parseFloat_def parseInt10_def isWhiteSpace_def isDigit_def digitsValue_def digitValue_def

lemmas round_eval =
  decimalNumber_def toNumber_def floorLog2_def roundHalfEven_def compute_bitlen Let_def

lemma roundHalfEven_1: "roundHalfEven x 1 = x"
  by (simp add: roundHalfEven_def)

lemma toNumber_small_integer:
  assumes "0 < a" and "a < 2 ^ 53"
  shows "toNumber neg a 1 = Num (if neg then - of_int a else of_int a)"
proof -
  define e where "e = bitlen a - 1"
  have b1: "bitlen 1 = 1" by (simp add: compute_bitlen)
  have lo: "2 ^ nat (bitlen a - 1) \<le> a"
    using bitlen_bounds [OF assms(1)] by simp
  have "bitlen a \<noteq> 0" using assms(1) by (simp add: bitlen_eq_zero_iff)
  then have e0: "0 \<le> e" using bitlen_nonneg [of a] by (simp add: e_def)
  have "bitlen a \<le> 53" using assms(2) by (simp add: bitlen_le_iff_power)
  then have e52: "e \<le> 52" by (simp add: e_def)
  have fl: "floorLog2 a 1 = e"
    using lo e0 by (simp add: floorLog2_def b1 e_def)
  define m where "m = nat (52 - e)"
  have s: "max e (- 1022) - 52 = e - 52" using e0 by simp
  have ns: "nat (e - 52) = 0" "nat (- (e - 52)) = m" "nat (52 - e) = m"
    using e52 by (simp_all add: m_def)
  have "m \<le> 52" using e0 by (simp add: m_def)
  then have "(2::int) ^ m \<le> 2 ^ 52" by (intro power_increasing) simp_all
  with assms have "a * 2 ^ m < 2 ^ 53 * 2 ^ 52"
    by (intro mult_less_le_imp_less) simp_all
  then have small: "\<not> 2 ^ 1024 \<le> a * 2 ^ m" by simp
  have nz: "a * 2 ^ m \<noteq> 0" using assms(1) by simp
  have q: "(of_int (a * 2 ^ m) :: rat) / 2 ^ m = of_int a"
    "- (of_int (a * 2 ^ m) :: rat) / 2 ^ m = - of_int a" by simp_all
  show ?thesis
    using assms(1) small nz q
    by (simp add: toNumber_def fl s ns roundHalfEven_1 Let_def)
qed

lemma toNumber_2_53: "toNumber False (2 ^ 53) 1 = Num (2 ^ 53)"
  by (simp add: round_eval)

lemma toNumber_integer:
  assumes "0 \<le> a" and "a \<le> 2 ^ 53"
  shows "toNumber False a 1 = Num (of_int a)"
proof -
  consider "a = 0" | "0 < a" "a < 2 ^ 53" | "a = 2 ^ 53"
    using assms by linarith
  then show ?thesis
  proof cases
    case 1
    then show ?thesis by (simp add: toNumber_def)
  next
    case 2
    then show ?thesis using toNumber_small_integer [of a False] by simp
  next
    case 3
    then show ?thesis using toNumber_2_53 by simp
  qed
qed

lemma toNumber_not_NaN: "toNumber neg a b \<noteq> NaN"
  by (simp add: toNumber_def Let_def)

lemma decimalNumber_not_NaN: "decimalNumber neg d k \<noteq> NaN"
  by (simp add: decimalNumber_def toNumber_not_NaN)

text \<open>\<open>parseFloat\<close> returns \<open>NaN\<close> for exactly the strings that begin with no number.\<close>

lemma parseFloat_NaN_iff: "parseFloat s = NaN \<longleftrightarrow> \<not> beginsNumber s"
proof -
  obtain neg u where su: "signOf (dropWhile isWhiteSpace s) = (neg, u)"
    by (cases "signOf (dropWhile isWhiteSpace s)")
  show ?thesis
  proof (cases "startsWith u ''Infinity''")
    case True
    with su show ?thesis by (simp add: parseFloat_def beginsNumber_def)
  next
    case False
    show ?thesis
    proof (cases u)
      case Nil
      with su False show ?thesis by (simp add: parseFloat_def beginsNumber_def)
    next
      case (Cons c r)
      show ?thesis
      proof (cases "isDigit c")
        case True
        with su False Cons show ?thesis
          by (simp add: parseFloat_def beginsNumber_def decimalNumber_not_NaN Let_def
                split: list.splits prod.splits)
      next
        case nd: False
        show ?thesis
        proof (cases "c = CHR ''.''")
          case True
          have "takeWhile isDigit r = [] \<longleftrightarrow> (case r of [] \<Rightarrow> True | d # r' \<Rightarrow> \<not> isDigit d)"
            by (cases r) simp_all
          with su False Cons nd True show ?thesis
            by (auto simp: parseFloat_def beginsNumber_def decimalNumber_not_NaN Let_def
                  split: list.splits)
        next
          case False
          with su \<open>\<not> startsWith u ''Infinity''\<close> Cons nd show ?thesis
            by (simp add: parseFloat_def beginsNumber_def Let_def)
        qed
      qed
    qed
  qed
qed

text \<open>The values of the literals that the examples below use.\<close>

lemma parseFloat_0: "parseFloat ''0'' = Num 0"
  by (simp add: parse_eval decimalNumber_def toNumber_def)

lemma parseFloat_2: "parseFloat ''2'' = Num 2"
proof -
  have "parseFloat ''2'' = decimalNumber False 2 0" by (simp add: parse_eval)
  also have "\<dots> = Num 2" by (simp add: round_eval)
  finally show ?thesis .
qed

lemma parseFloat_1_5: "parseFloat ''1.5'' = Num 1.5"
proof -
  have "parseFloat ''1.5'' = decimalNumber False 15 (- 1)" by (simp add: parse_eval)
  also have "\<dots> = Num 1.5" by (simp add: round_eval)
  finally show ?thesis .
qed

lemma parseFloat_space_1_5: "parseFloat '' 1.5'' = Num 1.5"
proof -
  have "parseFloat '' 1.5'' = decimalNumber False 15 (- 1)" by (simp add: parse_eval)
  also have "\<dots> = Num 1.5" by (simp add: round_eval)
  finally show ?thesis .
qed

lemma parseFloat_150_5: "parseFloat ''150.5'' = Num 150.5"
proof -
  have "parseFloat ''150.5'' = decimalNumber False 1505 (- 1)" by (simp add: parse_eval)
  also have "\<dots> = Num 150.5" by (simp add: round_eval)
  finally show ?thesis .
qed

lemma parseFloat_abc: "parseFloat ''abc'' = NaN"
  by (simp add: parse_eval)

text \<open>An integer above \<open>2 ^ 53\<close> that is no double is rounded to the nearest one.\<close>

lemma toNumber_rounds: "toNumber False 9007199254740993 1 = Num 9007199254740992"
  by (simp add: round_eval)

subsection \<open>Classification of the plain error codes\<close>

text \<open>
  Thirteen of the fourteen codes of \<open>errorCodes\<close>, alone (\<open>t = []\<close>) or followed by any
  text \<open>t\<close>, throw the error of their own code.
\<close>

lemma plain_codes_with_trailing_text:
  "checkForErrors (''BAD_ACTION'' @ t) =
     Inl (HeroSMSError ''BAD_ACTION'' ''Incorrect action specified'' (''BAD_ACTION'' @ t))"
  "checkForErrors (''BAD_KEY'' @ t) = Inl (AuthenticationError ''BAD_KEY'' (''BAD_KEY'' @ t))"
  "checkForErrors (''NO_KEY'' @ t) = Inl (AuthenticationError ''NO_KEY'' (''NO_KEY'' @ t))"
  "checkForErrors (''ERROR_SQL'' @ t) =
     Inl (HeroSMSError ''ERROR_SQL'' ''Server database error'' (''ERROR_SQL'' @ t))"
  "checkForErrors (''BAD_SERVICE'' @ t) =
     Inl (HeroSMSError ''BAD_SERVICE'' ''Incorrect service specified'' (''BAD_SERVICE'' @ t))"
  "checkForErrors (''BAD_STATUS'' @ t) =
     Inl (HeroSMSError ''BAD_STATUS'' ''Incorrect status specified'' (''BAD_STATUS'' @ t))"
  "checkForErrors (''NO_NUMBERS'' @ t) = Inl (NoNumbersError (''NO_NUMBERS'' @ t))"
  "checkForErrors (''NO_ACTIVATION'' @ t) = Inl (ActivationNotFoundError (''NO_ACTIVATION'' @ t))"
  "checkForErrors (''WRONG_ACTIVATION_ID'' @ t) =
     Inl (HeroSMSError ''WRONG_ACTIVATION_ID'' ''Invalid activation ID''
           (''WRONG_ACTIVATION_ID'' @ t))"
  "checkForErrors (''EARLY_CANCEL_DENIED'' @ t) =
     Inl (EarlyCancelError (''EARLY_CANCEL_DENIED'' @ t))"
  "checkForErrors (''CHANNELS_LIMIT'' @ t) =
     Inl (HeroSMSError ''CHANNELS_LIMIT'' ''Account channels limit reached''
           (''CHANNELS_LIMIT'' @ t))"
  "checkForErrors (''OPERATORS_NOT_FOUND'' @ t) =
     Inl (HeroSMSError ''OPERATORS_NOT_FOUND'' ''No operators found''
           (''OPERATORS_NOT_FOUND'' @ t))"
  "checkForErrors (''ORDER_ALREADY_EXISTS'' @ t) =
     Inl (HeroSMSError ''ORDER_ALREADY_EXISTS'' ''Order already exists''
           (''ORDER_ALREADY_EXISTS'' @ t))"
  by (simp_all add: checkForErrors_def errorCodes_def errorFor_def ERROR_MESSAGES_def)

text \<open>
  C1. The fourteenth code does not: the body \<^verbatim>\<open>NO_ACTIVATIONS\<close> starts with the code
  \<^verbatim>\<open>NO_ACTIVATION\<close>, which stands earlier in \<open>errorCodes\<close>, so the loop throws
  \<open>ActivationNotFoundError\<close>, whose code is \<^verbatim>\<open>NO_ACTIVATION\<close>, and never reaches the
  entry \<^verbatim>\<open>NO_ACTIVATIONS\<close> and its message \<^verbatim>\<open>No activations found\<close>.
\<close>

theorem NO_ACTIVATIONS_classified_as_NO_ACTIVATION:
  "checkForErrors ''NO_ACTIVATIONS'' = Inl (ActivationNotFoundError ''NO_ACTIVATIONS'')
   \<and> errorCode (ActivationNotFoundError ''NO_ACTIVATIONS'') = Some ''NO_ACTIVATION''
   \<and> checkForErrors ''NO_ACTIVATIONS'' \<noteq>
       Inl (HeroSMSError ''NO_ACTIVATIONS'' ''No activations found'' ''NO_ACTIVATIONS'')"
  by (simp add: checkForErrors_def errorCodes_def errorFor_def)

text \<open>
  C10. The bare tokens \<^verbatim>\<open>WRONG_MAX_PRICE\<close> and \<^verbatim>\<open>BANNED\<close>, without the colon, are
  no error: neither is among the fourteen codes of \<open>errorCodes\<close>, both sentinel checks
  ask for the colon, and \<open>request\<close> returns the body for the decoder.
\<close>

theorem bare_sentinels_pass_classification:
  "checkForErrors ''WRONG_MAX_PRICE'' = Inr ()
   \<and> checkForErrors ''BANNED'' = Inr ()
   \<and> ''WRONG_MAX_PRICE'' \<notin> set errorCodes
   \<and> ''BANNED'' \<notin> set errorCodes
   \<and> length errorCodes = 14
   \<and> request (Str ''WRONG_MAX_PRICE'' :: 'j body) = Inr (Str ''WRONG_MAX_PRICE'')
   \<and> request (Str ''BANNED'' :: 'j body) = Inr (Str ''BANNED'')"
  by (simp add: checkForErrors_def errorCodes_def request_def)

subsection \<open>The sentinel \<^verbatim>\<open>BANNED:\<close>\<close>

text \<open>
  C6. A body that starts with \<^verbatim>\<open>BANNED:\<close> throws a \<open>BannedError\<close> whose payload is the
  second colon-delimited field, the text between the first colon and the next one (or
  the end of the body), and \<^verbatim>\<open>unknown\<close> when that field is empty.
\<close>

theorem banned_payload:
  assumes "response = ''BANNED:'' @ rest"
  shows "checkForErrors response =
           Inl (BannedError response
                 (if takeWhile (\<lambda>c. c \<noteq> CHR '':'') rest = [] then ''unknown''
                  else takeWhile (\<lambda>c. c \<noteq> CHR '':'') rest))"
proof -
  have "secondField (''BANNED'' @ CHR '':'' # rest) = Some (takeWhile (\<lambda>c. c \<noteq> CHR '':'') rest)"
    by (rule secondField_after) simp
  then have f: "secondField response = Some (takeWhile (\<lambda>c. c \<noteq> CHR '':'') rest)"
    using assms by simp
  have "orElse (Some f) d = (if f = [] then d else f)" for f d
    by (cases f) simp_all
  with f show ?thesis
    using assms by (simp add: checkForErrors_def)
qed

theorem banned_payload_witness:
  "checkForErrors ''BANNED:2024-01-01'' = Inl (BannedError ''BANNED:2024-01-01'' ''2024-01-01'')
   \<and> checkForErrors ''BANNED:'' = Inl (BannedError ''BANNED:'' ''unknown'')"
  using banned_payload [of "''BANNED:2024-01-01''" "''2024-01-01''"]
        banned_payload [of "''BANNED:''" "[]"]
  by simp

subsection \<open>What \<^verbatim>\<open>request\<close> returns\<close>

text \<open>
  C8. A body that is not a string is never checked for errors: \<open>request\<close> returns it as
  it is, and so does every endpoint that returns the result of \<open>request\<close>.
\<close>

theorem structured_body_passes_unchanged:
  "request (Structured j) = Inr (Structured j)
   \<and> getNumberV2 (Structured j) = Inr (Structured j)
   \<and> getStatusV2 (Structured j) = Inr (Structured j)
   \<and> getActiveActivations (Structured j) = Inr (Structured j)
   \<and> getHistory (Structured j) = Inr (Structured j)
   \<and> getCountries (Structured j) = Inr (Structured j)
   \<and> getServicesList (Structured j) = Inr (Structured j)
   \<and> getOperators (Structured j) = Inr (Structured j)
   \<and> getPrices (Structured j) = Inr (Structured j)
   \<and> getTopCountriesByService (Structured j) = Inr (Structured j)
   \<and> getTopCountriesByServiceRank (Structured j) = Inr (Structured j)"
  by (simp add: request_def getNumberV2_def getStatusV2_def getActiveActivations_def
        getHistory_def getCountries_def getServicesList_def getOperators_def getPrices_def
        getTopCountriesByService_def getTopCountriesByServiceRank_def)

text \<open>
  C9. For a string body, \<open>request\<close> returns a value exactly when \<open>checkForErrors\<close>
  throws nothing, and the value is then the same string, character for character.
\<close>

theorem classification_keeps_body:
  "request (Str s) = Inr r \<longleftrightarrow> checkForErrors s = Inr () \<and> r = Str s"
  by (auto simp: request_def split: sum.splits)

theorem classification_keeps_body_witness:
  "request (Str ''ACCESS_READY'' :: unit body) = Inr (Str ''ACCESS_READY'')
   \<and> checkForErrors ''ACCESS_READY'' = Inr ()"
  using classification_keeps_body [of "''ACCESS_READY''" "Str ''ACCESS_READY'' :: unit body"]
  by (simp add: checkForErrors_A)

subsection \<open>The sentinel \<^verbatim>\<open>WRONG_MAX_PRICE:\<close>\<close>

lemma orElse_Some: "orElse (Some f) d = (if f = [] then d else f)"
  by (cases f) simp_all

text \<open>
  C2, as the code has it. A body that starts with \<^verbatim>\<open>WRONG_MAX_PRICE:\<close> throws a
  \<open>WrongMaxPriceError\<close> whose minimum price is \<open>parseFloat\<close> of the second
  colon-delimited field, and 0 when that field is empty, since \<^verbatim>\<open>|| '0'\<close> replaces an
  empty field only. The minimum price is \<open>NaN\<close> exactly when the field is not empty and
  begins with no number: after its leading white space and an optional sign comes
  neither \<^verbatim>\<open>Infinity\<close>, nor a digit, nor a point and a digit.
\<close>

theorem wrong_max_price_payload:
  assumes "response = ''WRONG_MAX_PRICE:'' @ rest"
    and "field = takeWhile (\<lambda>c. c \<noteq> CHR '':'') rest"
  shows "checkForErrors response =
           Inl (WrongMaxPriceError response (if field = [] then Num 0 else parseFloat field))
         \<and> ((if field = [] then Num 0 else parseFloat field) = NaN
              \<longleftrightarrow> field \<noteq> [] \<and> \<not> beginsNumber field)"
proof -
  have "secondField (''WRONG_MAX_PRICE'' @ CHR '':'' # rest) = Some field"
    unfolding assms(2) by (rule secondField_after) simp
  then have f: "secondField response = Some field"
    using assms(1) by simp
  have c: "checkForErrors response =
             Inl (WrongMaxPriceError response (parseFloat (orElse (Some field) ''0'')))"
    using assms(1) f by (simp add: checkForErrors_def)
  have 1: "checkForErrors response =
           Inl (WrongMaxPriceError response (if field = [] then Num 0 else parseFloat field))"
    using c by (simp add: orElse_Some parseFloat_0)
  have 2: "(if field = [] then Num 0 else parseFloat field) = NaN
              \<longleftrightarrow> field \<noteq> [] \<and> \<not> beginsNumber field"
    by (simp add: parseFloat_NaN_iff)
  from 1 2 show ?thesis by (rule conjI)
qed

theorem wrong_max_price_payload_witness:
  "checkForErrors ''WRONG_MAX_PRICE:1.5'' =
     Inl (WrongMaxPriceError ''WRONG_MAX_PRICE:1.5'' (Num 1.5))
   \<and> checkForErrors ''WRONG_MAX_PRICE:'' = Inl (WrongMaxPriceError ''WRONG_MAX_PRICE:'' (Num 0))
   \<and> checkForErrors ''WRONG_MAX_PRICE:abc'' = Inl (WrongMaxPriceError ''WRONG_MAX_PRICE:abc'' NaN)
   \<and> \<not> beginsNumber ''abc''
   \<and> checkForErrors ''WRONG_MAX_PRICE: 1.5'' =
       Inl (WrongMaxPriceError ''WRONG_MAX_PRICE: 1.5'' (Num 1.5))
   \<and> beginsNumber '' 1.5''"
  using wrong_max_price_payload [of "''WRONG_MAX_PRICE:1.5''" "''1.5''" "''1.5''"]
        wrong_max_price_payload [of "''WRONG_MAX_PRICE:''" "[]" "[]"]
        wrong_max_price_payload [of "''WRONG_MAX_PRICE:abc''" "''abc''" "''abc''"]
        wrong_max_price_payload [of "''WRONG_MAX_PRICE: 1.5''" "'' 1.5''" "'' 1.5''"]
  by (simp add: parseFloat_1_5 parseFloat_space_1_5 parseFloat_abc)

text \<open>
  C2 as stated fails: the field \<^verbatim>\<open>abc\<close> is not empty, so it is parsed as it is, and the
  minimum price of \<^verbatim>\<open>WRONG_MAX_PRICE:abc\<close> is \<open>NaN\<close>, not 0.
\<close>

theorem wrong_max_price_abc_is_NaN:
  "checkForErrors ''WRONG_MAX_PRICE:abc'' = Inl (WrongMaxPriceError ''WRONG_MAX_PRICE:abc'' NaN)
   \<and> minimumPrice (WrongMaxPriceError ''WRONG_MAX_PRICE:abc'' NaN) \<noteq> Some (Num 0)"
  by (simp add: checkForErrors_def secondField_def parseFloat_abc)

subsection \<open>Decoding the balance\<close>

lemma takeWhile_line:
  assumes "\<forall>c \<in> set g. \<not> isLineTerminator c" and "post = [] \<or> isLineTerminator (hd post)"
  shows "takeWhile (\<lambda>c. \<not> isLineTerminator c) (g @ post) = g"
proof -
  have "takeWhile (\<lambda>c. \<not> isLineTerminator c) post = []"
    using assms(2) by (cases post) auto
  with assms(1) show ?thesis by (simp add: takeWhile_append2)
qed

lemma balanceAt_iff:
  "balanceAt s \<noteq> None \<longleftrightarrow>
     (\<exists>c rest. s = ''ACCESS_BALANCE:'' @ c # rest \<and> \<not> isLineTerminator c)"
proof (cases "afterLiteral ''ACCESS_BALANCE:'' s")
  case None
  then have "s \<noteq> ''ACCESS_BALANCE:'' @ r" for r
    using afterLiteral_Some_iff [of "''ACCESS_BALANCE:''" s r] by simp
  with None show ?thesis by (auto simp: balanceAt_def)
next
  case (Some r)
  then have s: "s = ''ACCESS_BALANCE:'' @ r" by (simp add: afterLiteral_Some_iff)
  have "takeWhile (\<lambda>c. \<not> isLineTerminator c) r \<noteq> [] \<longleftrightarrow>
          (\<exists>c rest. r = c # rest \<and> \<not> isLineTerminator c)"
    by (cases r) auto
  with Some s show ?thesis by (auto simp: balanceAt_def Let_def)
qed

lemma balanceAt_line:
  assumes "g \<noteq> []" and "\<forall>c \<in> set g. \<not> isLineTerminator c"
    and "post = [] \<or> isLineTerminator (hd post)"
  shows "balanceAt (''ACCESS_BALANCE:'' @ g @ post) = Some g"
proof -
  have a: "afterLiteral ''ACCESS_BALANCE:'' (''ACCESS_BALANCE:'' @ g @ post) = Some (g @ post)"
    by (simp only: afterLiteral_Some_iff)
  have t: "takeWhile (\<lambda>c. \<not> isLineTerminator c) (g @ post) = g"
    using assms(2,3) by (rule takeWhile_line)
  show ?thesis
    unfolding balanceAt_def a option.case Let_def t using assms(1) by simp
qed

lemma getBalance_Str:
  "getBalance (Str s) =
     (case checkForErrors s of
        Inl e \<Rightarrow> Inl e
      | Inr u \<Rightarrow>
          (case search balanceAt s of
             None \<Rightarrow> Inl (HeroSMSError ''PARSE_ERROR'' (''Unexpected balance response: '' @ s) s)
           | Some g \<Rightarrow> Inr (parseFloat g)))"
  by (simp add: getBalance_def request_def split: sum.splits)

text \<open>
  C3, as the code has it. For a body that passed classification, \<open>getBalance\<close> returns a
  number exactly when the body contains \<^verbatim>\<open>ACCESS_BALANCE:\<close> followed by a character
  that is not a line terminator, anywhere in it; every other such body throws a
  \<^verbatim>\<open>PARSE_ERROR\<close> that carries the body. For a body that begins with
  \<^verbatim>\<open>ACCESS_BALANCE:\<close> and a character that is not a line terminator, the number is
  \<open>parseFloat g\<close>, where \<open>g\<close> is the text after that colon up to the first line
  terminator or the end of the body: it is \<open>NaN\<close> exactly when \<open>g\<close> begins with no
  number.
\<close>

theorem balance_decoding:
  "((\<exists>n. getBalance (Str s :: 'j body) = Inr n) \<longleftrightarrow>
      checkForErrors s = Inr () \<and>
      (\<exists>pre c rest. s = pre @ ''ACCESS_BALANCE:'' @ c # rest \<and> \<not> isLineTerminator c))
   \<and> (checkForErrors s = Inr () \<and>
        \<not> (\<exists>pre c rest. s = pre @ ''ACCESS_BALANCE:'' @ c # rest \<and> \<not> isLineTerminator c)
      \<longrightarrow> getBalance (Str s :: 'j body) =
            Inl (HeroSMSError ''PARSE_ERROR'' (''Unexpected balance response: '' @ s) s))
   \<and> (g \<noteq> [] \<and> (\<forall>c \<in> set g. \<not> isLineTerminator c) \<and> (post = [] \<or> isLineTerminator (hd post))
      \<longrightarrow> getBalance (Str (''ACCESS_BALANCE:'' @ g @ post) :: 'j body) = Inr (parseFloat g)
          \<and> (parseFloat g = NaN \<longleftrightarrow> \<not> beginsNumber g))"
proof -
  have occ: "search balanceAt s \<noteq> None \<longleftrightarrow>
        (\<exists>pre c rest. s = pre @ ''ACCESS_BALANCE:'' @ c # rest \<and> \<not> isLineTerminator c)"
    unfolding search_Some_iff balanceAt_iff by blast
  have 1: "(\<exists>n. getBalance (Str s) = Inr n) \<longleftrightarrow>
      checkForErrors s = Inr () \<and> search balanceAt s \<noteq> None"
    by (auto simp: getBalance_Str split: sum.splits option.splits)
  have 2: "getBalance (Str s) =
            Inl (HeroSMSError ''PARSE_ERROR'' (''Unexpected balance response: '' @ s) s)"
    if "checkForErrors s = Inr ()" "search balanceAt s = None"
    using that by (simp add: getBalance_Str)
  have 3: "getBalance (Str (''ACCESS_BALANCE:'' @ g @ post)) = Inr (parseFloat g)"
    if "g \<noteq> []" "\<forall>c \<in> set g. \<not> isLineTerminator c" "post = [] \<or> isLineTerminator (hd post)"
  proof -
    have "search balanceAt (''ACCESS_BALANCE:'' @ g @ post) = Some g"
      using that by (intro search_here balanceAt_line)
    moreover have "checkForErrors (''ACCESS_BALANCE:'' @ g @ post) = Inr ()"
      using checkForErrors_A [of "''CCESS_BALANCE:'' @ g @ post"] by simp
    ultimately show ?thesis by (simp only: getBalance_Str sum.case option.case)
  qed
  from 1 2 3 occ parseFloat_NaN_iff [of g] show ?thesis by blast
qed

theorem balance_decoding_witness:
  "getBalance (Str ''ACCESS_BALANCE:150.5'' :: unit body) = Inr (Num 150.5)
   \<and> getBalance (Str ''ACCESS_BALANCE:'' :: unit body) =
       Inl (HeroSMSError ''PARSE_ERROR'' ''Unexpected balance response: ACCESS_BALANCE:''
             ''ACCESS_BALANCE:'')
   \<and> (\<exists>n. getBalance (Str ''ACCESS_BALANCE:abc'' :: unit body) = Inr n)"
proof -
  have no: "\<not> (\<exists>pre c rest. ''ACCESS_BALANCE:'' = pre @ ''ACCESS_BALANCE:'' @ c # rest
                 \<and> \<not> isLineTerminator c)"
  proof
    assume "\<exists>pre c rest. ''ACCESS_BALANCE:'' = pre @ ''ACCESS_BALANCE:'' @ c # rest
                 \<and> \<not> isLineTerminator c"
    then obtain pre c rest where "''ACCESS_BALANCE:'' = pre @ ''ACCESS_BALANCE:'' @ c # rest"
      by blast
    then have "length ''ACCESS_BALANCE:'' = length (pre @ ''ACCESS_BALANCE:'' @ c # rest)"
      by (rule arg_cong)
    then show False by simp
  qed
  have yes: "''ACCESS_BALANCE:abc'' = [] @ ''ACCESS_BALANCE:'' @ CHR ''a'' # ''bc''
               \<and> \<not> isLineTerminator (CHR ''a'')"
    by (simp add: isLineTerminator_def)
  have ok: "checkForErrors ''ACCESS_BALANCE:'' = Inr ()"
    "checkForErrors ''ACCESS_BALANCE:abc'' = Inr ()"
    by (simp_all add: checkForErrors_A)
  have line: "''150.5'' \<noteq> [] \<and> (\<forall>c \<in> set ''150.5''. \<not> isLineTerminator c)
                \<and> ([] = [] \<or> isLineTerminator (hd []))"
    by (simp add: isLineTerminator_def)
  have pf: "parseFloat ''150.5'' = Num 150.5"
    by (rule parseFloat_150_5)
  have a: "getBalance (Str ''ACCESS_BALANCE:150.5'' :: unit body) = Inr (Num 150.5)"
    using balance_decoding [of "''ACCESS_BALANCE:''" "''150.5''" "[]", where ?'j = unit]
          line pf
    by simp
  have b: "getBalance (Str ''ACCESS_BALANCE:'' :: unit body) =
       Inl (HeroSMSError ''PARSE_ERROR'' ''Unexpected balance response: ACCESS_BALANCE:''
             ''ACCESS_BALANCE:'')"
    using balance_decoding [of "''ACCESS_BALANCE:''" "''150.5''" "[]", where ?'j = unit]
          no ok(1)
    by simp
  have c: "\<exists>n. getBalance (Str ''ACCESS_BALANCE:abc'' :: unit body) = Inr n"
    using balance_decoding [of "''ACCESS_BALANCE:abc''" "''150.5''" "[]", where ?'j = unit]
          yes ok(2)
    by blast
  from a b c show ?thesis by blast
qed

text \<open>
  C3 as stated fails: \<^verbatim>\<open>ACCESS_BALANCE:abc\<close> is not of the form
  \<^verbatim>\<open>ACCESS_BALANCE:<float>\<close>, yet no \<^verbatim>\<open>PARSE_ERROR\<close> is thrown: the pattern \<^verbatim>\<open>(.+)\<close>
  takes \<^verbatim>\<open>abc\<close> and \<open>getBalance\<close> returns \<open>NaN\<close>.
\<close>

theorem balance_abc_decodes_to_NaN:
  "getBalance (Str ''ACCESS_BALANCE:abc'' :: unit body) = Inr NaN"
  by (simp add: getBalance_def request_def checkForErrors_A balanceAt_def
        isLineTerminator_def parseFloat_abc)

subsection \<open>Decoding the status\<close>

lemma getStatus_Str:
  "getStatus (Str s) =
     (case checkForErrors s of
        Inl e \<Rightarrow> Inl e
      | Inr u \<Rightarrow>
          (if startsWith s ''STATUS_OK:'' then
             Inr \<lparr>status = ''STATUS_OK'', code = secondField s\<rparr>
           else if startsWith s ''STATUS_WAIT_RETRY:'' then
             Inr \<lparr>status = ''STATUS_WAIT_RETRY'', code = secondField s\<rparr>
           else if s = ''STATUS_WAIT_CODE'' then
             Inr \<lparr>status = ''STATUS_WAIT_CODE'', code = None\<rparr>
           else if s = ''STATUS_WAIT_RESEND'' then
             Inr \<lparr>status = ''STATUS_WAIT_RESEND'', code = None\<rparr>
           else if s = ''STATUS_CANCEL'' then
             Inr \<lparr>status = ''STATUS_CANCEL'', code = None\<rparr>
           else Inl (HeroSMSError ''PARSE_ERROR'' (''Unexpected status response: '' @ s) s)))"
  by (simp add: getStatus_def request_def split: sum.splits)

lemma status_OK:
  "getStatus (Str (''STATUS_OK:'' @ c)) =
     Inr \<lparr>status = ''STATUS_OK'', code = Some (takeWhile (\<lambda>x. x \<noteq> CHR '':'') c)\<rparr>"
proof -
  have "secondField (''STATUS_OK'' @ CHR '':'' # c) = Some (takeWhile (\<lambda>x. x \<noteq> CHR '':'') c)"
    by (rule secondField_after) simp
  then have "secondField (''STATUS_OK:'' @ c) = Some (takeWhile (\<lambda>x. x \<noteq> CHR '':'') c)"
    by simp
  moreover have "checkForErrors (''STATUS_OK:'' @ c) = Inr ()"
    using checkForErrors_S [of "''TATUS_OK:'' @ c"] by simp
  moreover have "startsWith (''STATUS_OK:'' @ c) ''STATUS_OK:''"
    by (simp only: startsWith_iff) blast
  ultimately show ?thesis
    by (simp only: getStatus_Str sum.case if_True)
qed

lemma status_WAIT_RETRY:
  "getStatus (Str (''STATUS_WAIT_RETRY:'' @ c)) =
     Inr \<lparr>status = ''STATUS_WAIT_RETRY'', code = Some (takeWhile (\<lambda>x. x \<noteq> CHR '':'') c)\<rparr>"
proof -
  have "secondField (''STATUS_WAIT_RETRY'' @ CHR '':'' # c) =
          Some (takeWhile (\<lambda>x. x \<noteq> CHR '':'') c)"
    by (rule secondField_after) simp
  then have "secondField (''STATUS_WAIT_RETRY:'' @ c) =
               Some (takeWhile (\<lambda>x. x \<noteq> CHR '':'') c)"
    by simp
  moreover have "checkForErrors (''STATUS_WAIT_RETRY:'' @ c) = Inr ()"
    using checkForErrors_S [of "''TATUS_WAIT_RETRY:'' @ c"] by simp
  moreover have "startsWith (''STATUS_WAIT_RETRY:'' @ c) ''STATUS_WAIT_RETRY:''"
    by (simp only: startsWith_iff) blast
  moreover have "\<not> startsWith (''STATUS_WAIT_RETRY:'' @ c) ''STATUS_OK:''"
    by simp
  ultimately show ?thesis
    by (simp only: getStatus_Str sum.case if_True if_False)
qed

lemma status_exact:
  "getStatus (Str ''STATUS_WAIT_CODE'') = Inr \<lparr>status = ''STATUS_WAIT_CODE'', code = None\<rparr>"
  "getStatus (Str ''STATUS_WAIT_RESEND'') = Inr \<lparr>status = ''STATUS_WAIT_RESEND'', code = None\<rparr>"
  "getStatus (Str ''STATUS_CANCEL'') = Inr \<lparr>status = ''STATUS_CANCEL'', code = None\<rparr>"
  by (simp_all add: getStatus_Str checkForErrors_S)

lemma takeWhile_no_colon: "CHR '':'' \<notin> set c \<Longrightarrow> takeWhile (\<lambda>x. x \<noteq> CHR '':'') c = c"
  by (induction c) auto

text \<open>
  C4, as the code has it. \<open>getStatus\<close> knows five shapes, tried in this order. A body
  \<^verbatim>\<open>STATUS_OK:\<close>\<open>c\<close> gives the status \<^verbatim>\<open>STATUS_OK\<close> and a body
  \<^verbatim>\<open>STATUS_WAIT_RETRY:\<close>\<open>c\<close> the status \<^verbatim>\<open>STATUS_WAIT_RETRY\<close>, each with the code
  \<^verbatim>\<open>response.split(':')[1]\<close>: the text of \<open>c\<close> up to its first colon, which is all of
  \<open>c\<close> when \<open>c\<close> has no colon. The exact bodies \<^verbatim>\<open>STATUS_WAIT_CODE\<close>,
  \<^verbatim>\<open>STATUS_WAIT_RESEND\<close> and \<^verbatim>\<open>STATUS_CANCEL\<close> give their status with no field
  \<open>code\<close>. Every other body that passed classification throws a \<^verbatim>\<open>PARSE_ERROR\<close> that
  carries the body.
\<close>

theorem status_decoding:
  "getStatus (Str (''STATUS_OK:'' @ c) :: 'j body) =
     Inr \<lparr>status = ''STATUS_OK'', code = Some (takeWhile (\<lambda>x. x \<noteq> CHR '':'') c)\<rparr>
   \<and> getStatus (Str (''STATUS_WAIT_RETRY:'' @ c) :: 'j body) =
     Inr \<lparr>status = ''STATUS_WAIT_RETRY'', code = Some (takeWhile (\<lambda>x. x \<noteq> CHR '':'') c)\<rparr>
   \<and> (CHR '':'' \<notin> set c \<longrightarrow>
        getStatus (Str (''STATUS_OK:'' @ c) :: 'j body) =
          Inr \<lparr>status = ''STATUS_OK'', code = Some c\<rparr>
        \<and> getStatus (Str (''STATUS_WAIT_RETRY:'' @ c) :: 'j body) =
          Inr \<lparr>status = ''STATUS_WAIT_RETRY'', code = Some c\<rparr>)
   \<and> getStatus (Str ''STATUS_WAIT_CODE'' :: 'j body) =
       Inr \<lparr>status = ''STATUS_WAIT_CODE'', code = None\<rparr>
   \<and> getStatus (Str ''STATUS_WAIT_RESEND'' :: 'j body) =
       Inr \<lparr>status = ''STATUS_WAIT_RESEND'', code = None\<rparr>
   \<and> getStatus (Str ''STATUS_CANCEL'' :: 'j body) =
       Inr \<lparr>status = ''STATUS_CANCEL'', code = None\<rparr>
   \<and> (checkForErrors s = Inr ()
        \<and> (\<forall>t. s \<noteq> ''STATUS_OK:'' @ t) \<and> (\<forall>t. s \<noteq> ''STATUS_WAIT_RETRY:'' @ t)
        \<and> s \<noteq> ''STATUS_WAIT_CODE'' \<and> s \<noteq> ''STATUS_WAIT_RESEND'' \<and> s \<noteq> ''STATUS_CANCEL''
      \<longrightarrow> getStatus (Str s :: 'j body) =
            Inl (HeroSMSError ''PARSE_ERROR'' (''Unexpected status response: '' @ s) s))"
proof -
  have other: "getStatus (Str s :: 'j body) =
            Inl (HeroSMSError ''PARSE_ERROR'' (''Unexpected status response: '' @ s) s)"
    if "checkForErrors s = Inr ()" "\<forall>t. s \<noteq> ''STATUS_OK:'' @ t"
      "\<forall>t. s \<noteq> ''STATUS_WAIT_RETRY:'' @ t"
      "s \<noteq> ''STATUS_WAIT_CODE''" "s \<noteq> ''STATUS_WAIT_RESEND''" "s \<noteq> ''STATUS_CANCEL''"
  proof -
    have "\<not> startsWith s ''STATUS_OK:''" "\<not> startsWith s ''STATUS_WAIT_RETRY:''"
      using that(2,3) by (auto simp only: startsWith_iff)
    with that(1,4,5,6) show ?thesis
      by (simp only: getStatus_Str sum.case if_False)
  qed
  have ok: "getStatus (Str (''STATUS_OK:'' @ c) :: 'j body) =
     Inr \<lparr>status = ''STATUS_OK'', code = Some (takeWhile (\<lambda>x. x \<noteq> CHR '':'') c)\<rparr>"
    by (rule status_OK)
  have retry: "getStatus (Str (''STATUS_WAIT_RETRY:'' @ c) :: 'j body) =
     Inr \<lparr>status = ''STATUS_WAIT_RETRY'', code = Some (takeWhile (\<lambda>x. x \<noteq> CHR '':'') c)\<rparr>"
    by (rule status_WAIT_RETRY)
  have whole: "getStatus (Str (''STATUS_OK:'' @ c) :: 'j body) =
          Inr \<lparr>status = ''STATUS_OK'', code = Some c\<rparr>
        \<and> getStatus (Str (''STATUS_WAIT_RETRY:'' @ c) :: 'j body) =
          Inr \<lparr>status = ''STATUS_WAIT_RETRY'', code = Some c\<rparr>"
    if "CHR '':'' \<notin> set c"
    using ok retry takeWhile_no_colon [OF that] by (simp only:)
  have exact: "getStatus (Str ''STATUS_WAIT_CODE'' :: 'j body) =
       Inr \<lparr>status = ''STATUS_WAIT_CODE'', code = None\<rparr>"
    "getStatus (Str ''STATUS_WAIT_RESEND'' :: 'j body) =
       Inr \<lparr>status = ''STATUS_WAIT_RESEND'', code = None\<rparr>"
    "getStatus (Str ''STATUS_CANCEL'' :: 'j body) =
       Inr \<lparr>status = ''STATUS_CANCEL'', code = None\<rparr>"
    by (rule status_exact)+
  from ok retry whole exact other show ?thesis by blast
qed

theorem status_decoding_witness:
  "getStatus (Str ''STATUS_OK:4815'' :: unit body) =
     Inr \<lparr>status = ''STATUS_OK'', code = Some ''4815''\<rparr>
   \<and> getStatus (Str ''STATUS_WAIT_RETRY:4815'' :: unit body) =
     Inr \<lparr>status = ''STATUS_WAIT_RETRY'', code = Some ''4815''\<rparr>
   \<and> getStatus (Str ''STATUS_WAIT_CODE'' :: unit body) =
     Inr \<lparr>status = ''STATUS_WAIT_CODE'', code = None\<rparr>
   \<and> getStatus (Str ''STATUS_READY'' :: unit body) =
     Inl (HeroSMSError ''PARSE_ERROR'' ''Unexpected status response: STATUS_READY''
           ''STATUS_READY'')"
  using status_decoding [of "''4815''" "''STATUS_READY''", where ?'j = unit]
  by (simp add: checkForErrors_S)

text \<open>
  C4 as stated fails where the code has a colon: \<^verbatim>\<open>STATUS_OK:1:2\<close> gives the status
  \<^verbatim>\<open>STATUS_OK\<close> with the code \<^verbatim>\<open>1\<close>, neither the code \<^verbatim>\<open>1:2\<close> nor a
  \<^verbatim>\<open>PARSE_ERROR\<close>.
\<close>

theorem status_code_cut_at_colon:
  "getStatus (Str ''STATUS_OK:1:2'' :: unit body) =
     Inr \<lparr>status = ''STATUS_OK'', code = Some ''1''\<rparr>"
  by (simp add: getStatus_Str checkForErrors_S secondField_def)

subsection \<open>Decoding the number allocation\<close>

lemma isDigit_plain: "isDigit d \<Longrightarrow> \<not> isWhiteSpace d \<and> d \<noteq> CHR ''-'' \<and> d \<noteq> CHR ''+''"
  by (auto simp: isDigit_def isWhiteSpace_def)

lemma parseInt10_digits:
  assumes "ds \<noteq> []" and "\<forall>d \<in> set ds. isDigit d"
  shows "parseInt10 ds = toNumber False (int (digitsValue ds)) 1"
proof -
  from assms(1) obtain d ds' where ds: "ds = d # ds'" by (cases ds) auto
  with assms(2) have d: "\<not> isWhiteSpace d" "d \<noteq> CHR ''-''" "d \<noteq> CHR ''+''"
    using isDigit_plain [of d] by simp_all
  have all: "takeWhile isDigit ds = ds"
    using assms(2) by simp
  have "signOf (dropWhile isWhiteSpace ds) = (False, ds)"
    using ds d by simp
  then show ?thesis
    using assms(1) by (simp add: parseInt10_def all)
qed

lemma digits_then_colon:
  assumes "\<forall>d \<in> set ds. isDigit d"
  shows "takeWhile isDigit (ds @ CHR '':'' # r) = ds"
    and "dropWhile isDigit (ds @ CHR '':'' # r) = CHR '':'' # r"
proof -
  have c: "\<not> isDigit (CHR '':'')" by (simp add: isDigit_def)
  show "takeWhile isDigit (ds @ CHR '':'' # r) = ds"
    using assms c by (simp add: takeWhile_append2)
  show "dropWhile isDigit (ds @ CHR '':'' # r) = CHR '':'' # r"
    using assms c by (simp add: dropWhile_append2)
qed

lemma numberAt_digits:
  assumes "ds \<noteq> []" and "\<forall>d \<in> set ds. isDigit d"
    and "takeWhile (\<lambda>c. \<not> isLineTerminator c) r = g" and "g \<noteq> []"
  shows "numberAt (''ACCESS_NUMBER:'' @ ds @ CHR '':'' # r) = Some (ds, g)"
proof -
  have a: "afterLiteral ''ACCESS_NUMBER:'' (''ACCESS_NUMBER:'' @ ds @ CHR '':'' # r) =
             Some (ds @ CHR '':'' # r)"
    by (simp only: afterLiteral_Some_iff)
  show ?thesis
    unfolding numberAt_def a
    using assms(1,3,4) by (simp add: digits_then_colon [OF assms(2)])
qed

lemma numberAt_line:
  assumes "ds \<noteq> []" and "\<forall>d \<in> set ds. isDigit d"
    and "g \<noteq> []" and "\<forall>c \<in> set g. \<not> isLineTerminator c"
    and "post = [] \<or> isLineTerminator (hd post)"
  shows "numberAt (''ACCESS_NUMBER:'' @ ds @ '':'' @ g @ post) = Some (ds, g)"
proof -
  have t: "takeWhile (\<lambda>c. \<not> isLineTerminator c) (g @ post) = g"
    using assms(4,5) by (rule takeWhile_line)
  have "numberAt (''ACCESS_NUMBER:'' @ ds @ CHR '':'' # (g @ post)) = Some (ds, g)"
    using assms(1,2) t assms(3) by (rule numberAt_digits)
  then show ?thesis by simp
qed

lemma numberAt_iff:
  "numberAt s \<noteq> None \<longleftrightarrow>
     (\<exists>ds c rest. s = ''ACCESS_NUMBER:'' @ ds @ CHR '':'' # c # rest \<and> ds \<noteq> []
         \<and> (\<forall>d \<in> set ds. isDigit d) \<and> \<not> isLineTerminator c)"
proof
  assume "numberAt s \<noteq> None"
  then obtain r where r: "afterLiteral ''ACCESS_NUMBER:'' s = Some r"
    by (auto simp: numberAt_def split: option.splits)
  then have s: "s = ''ACCESS_NUMBER:'' @ r" by (simp add: afterLiteral_Some_iff)
  define ds where "ds = takeWhile isDigit r"
  from \<open>numberAt s \<noteq> None\<close> r have ne: "ds \<noteq> []"
    by (auto simp: numberAt_def Let_def ds_def split: if_splits)
  from \<open>numberAt s \<noteq> None\<close> r ne obtain r' where
    dr: "dropWhile isDigit r = CHR '':'' # r'"
    and g: "takeWhile (\<lambda>c. \<not> isLineTerminator c) r' \<noteq> []"
    by (auto simp: numberAt_def Let_def ds_def split: if_splits list.splits)
  from g obtain c rest where r': "r' = c # rest" "\<not> isLineTerminator c"
    by (cases r') (auto split: if_splits)
  have "r = ds @ dropWhile isDigit r" by (simp add: ds_def)
  with dr r' have "r = ds @ CHR '':'' # c # rest" by simp
  moreover have "\<forall>d \<in> set ds. isDigit d"
    by (auto simp: ds_def dest: set_takeWhileD)
  ultimately show "\<exists>ds c rest. s = ''ACCESS_NUMBER:'' @ ds @ CHR '':'' # c # rest \<and> ds \<noteq> []
         \<and> (\<forall>d \<in> set ds. isDigit d) \<and> \<not> isLineTerminator c"
    using s ne r'(2) by blast
next
  assume "\<exists>ds c rest. s = ''ACCESS_NUMBER:'' @ ds @ CHR '':'' # c # rest \<and> ds \<noteq> []
         \<and> (\<forall>d \<in> set ds. isDigit d) \<and> \<not> isLineTerminator c"
  then obtain ds c rest where s: "s = ''ACCESS_NUMBER:'' @ ds @ CHR '':'' # c # rest"
    and ds: "ds \<noteq> []" "\<forall>d \<in> set ds. isDigit d" and c: "\<not> isLineTerminator c"
    by blast
  have "takeWhile (\<lambda>c. \<not> isLineTerminator c) (c # rest) \<noteq> []"
    using c by simp
  with ds have "numberAt (''ACCESS_NUMBER:'' @ ds @ CHR '':'' # c # rest) =
                  Some (ds, takeWhile (\<lambda>c. \<not> isLineTerminator c) (c # rest))"
    by (intro numberAt_digits) simp_all
  with s show "numberAt s \<noteq> None" by simp
qed

lemma getNumber_Str:
  "getNumber (Str s) =
     (case checkForErrors s of
        Inl e \<Rightarrow> Inl e
      | Inr u \<Rightarrow>
          (case search numberAt s of
             None \<Rightarrow> Inl (HeroSMSError ''PARSE_ERROR'' (''Unexpected number response: '' @ s) s)
           | Some (ds, g) \<Rightarrow> Inr \<lparr>activationId = parseInt10 ds, phoneNumber = g\<rparr>))"
  by (simp add: getNumber_def request_def split: sum.splits)

text \<open>
  C5, as the code has it. For a body that passed classification, \<open>getNumber\<close> returns a
  value exactly when the body contains, anywhere in it, \<^verbatim>\<open>ACCESS_NUMBER:\<close>, one or more
  digits, a colon and a character that is not a line terminator; every other such body
  throws a \<^verbatim>\<open>PARSE_ERROR\<close> that carries the body. For a body that begins with
  \<^verbatim>\<open>ACCESS_NUMBER:\<close>, digits \<open>ns\<close>, a colon and a character that is not a line
  terminator, \<open>phoneNumber\<close> is the text \<open>g\<close> after that colon up to the first line
  terminator or the end of the body, further colons included, and \<open>activationId\<close> is the
  double nearest to the integer that \<open>ns\<close> denotes: the integer itself when it is at most
  \<open>2 ^ 53\<close>.
\<close>

theorem number_decoding:
  "((\<exists>r. getNumber (Str s :: 'j body) = Inr r) \<longleftrightarrow>
      checkForErrors s = Inr () \<and>
      (\<exists>pre ds c rest. s = pre @ ''ACCESS_NUMBER:'' @ ds @ CHR '':'' # c # rest \<and> ds \<noteq> []
          \<and> (\<forall>d \<in> set ds. isDigit d) \<and> \<not> isLineTerminator c))
   \<and> (checkForErrors s = Inr () \<and>
        \<not> (\<exists>pre ds c rest. s = pre @ ''ACCESS_NUMBER:'' @ ds @ CHR '':'' # c # rest \<and> ds \<noteq> []
              \<and> (\<forall>d \<in> set ds. isDigit d) \<and> \<not> isLineTerminator c)
      \<longrightarrow> getNumber (Str s :: 'j body) =
            Inl (HeroSMSError ''PARSE_ERROR'' (''Unexpected number response: '' @ s) s))
   \<and> (ns \<noteq> [] \<and> (\<forall>d \<in> set ns. isDigit d) \<and> g \<noteq> [] \<and> (\<forall>c \<in> set g. \<not> isLineTerminator c)
        \<and> (post = [] \<or> isLineTerminator (hd post))
      \<longrightarrow> getNumber (Str (''ACCESS_NUMBER:'' @ ns @ '':'' @ g @ post) :: 'j body) =
            Inr \<lparr>activationId = toNumber False (int (digitsValue ns)) 1, phoneNumber = g\<rparr>
          \<and> (digitsValue ns \<le> 2 ^ 53 \<longrightarrow>
               getNumber (Str (''ACCESS_NUMBER:'' @ ns @ '':'' @ g @ post) :: 'j body) =
                 Inr \<lparr>activationId = Num (of_nat (digitsValue ns)), phoneNumber = g\<rparr>))"
proof -
  have occ: "search numberAt s \<noteq> None \<longleftrightarrow>
      (\<exists>pre ds c rest. s = pre @ ''ACCESS_NUMBER:'' @ ds @ CHR '':'' # c # rest \<and> ds \<noteq> []
          \<and> (\<forall>d \<in> set ds. isDigit d) \<and> \<not> isLineTerminator c)"
    unfolding search_Some_iff numberAt_iff by blast
  have 1: "(\<exists>r. getNumber (Str s :: 'j body) = Inr r) \<longleftrightarrow>
      checkForErrors s = Inr () \<and> search numberAt s \<noteq> None"
    by (auto simp: getNumber_Str split: sum.splits option.splits)
  have 2: "getNumber (Str s :: 'j body) =
            Inl (HeroSMSError ''PARSE_ERROR'' (''Unexpected number response: '' @ s) s)"
    if "checkForErrors s = Inr ()" "search numberAt s = None"
    using that by (simp add: getNumber_Str)
  have 3: "getNumber (Str (''ACCESS_NUMBER:'' @ ns @ '':'' @ g @ post) :: 'j body) =
            Inr \<lparr>activationId = toNumber False (int (digitsValue ns)) 1, phoneNumber = g\<rparr>"
    if "ns \<noteq> []" "\<forall>d \<in> set ns. isDigit d" "g \<noteq> []" "\<forall>c \<in> set g. \<not> isLineTerminator c"
      "post = [] \<or> isLineTerminator (hd post)"
  proof -
    have "search numberAt (''ACCESS_NUMBER:'' @ ns @ '':'' @ g @ post) = Some (ns, g)"
      using that by (intro search_here numberAt_line)
    moreover have "checkForErrors (''ACCESS_NUMBER:'' @ ns @ '':'' @ g @ post) = Inr ()"
      using checkForErrors_A [of "''CCESS_NUMBER:'' @ ns @ '':'' @ g @ post"] by simp
    moreover have "parseInt10 ns = toNumber False (int (digitsValue ns)) 1"
      using that(1,2) by (rule parseInt10_digits)
    ultimately show ?thesis
      by (simp only: getNumber_Str sum.case option.case prod.case)
  qed
  have 4: "toNumber False (int (digitsValue ns)) 1 = Num (of_nat (digitsValue ns))"
    if "digitsValue ns \<le> 2 ^ 53"
  proof -
    have "int (digitsValue ns) \<le> 2 ^ 53"
      using that by (simp add: of_nat_le_iff [of "digitsValue ns" "2 ^ 53", where ?'a = int,
                                  symmetric] del: of_nat_le_iff)
    then show ?thesis
      using toNumber_integer [of "int (digitsValue ns)"] by simp
  qed
  have 5: "getNumber (Str (''ACCESS_NUMBER:'' @ ns @ '':'' @ g @ post) :: 'j body) =
            Inr \<lparr>activationId = toNumber False (int (digitsValue ns)) 1, phoneNumber = g\<rparr>
          \<and> (digitsValue ns \<le> 2 ^ 53 \<longrightarrow>
               getNumber (Str (''ACCESS_NUMBER:'' @ ns @ '':'' @ g @ post) :: 'j body) =
                 Inr \<lparr>activationId = Num (of_nat (digitsValue ns)), phoneNumber = g\<rparr>)"
    if "ns \<noteq> []" "\<forall>d \<in> set ns. isDigit d" "g \<noteq> []" "\<forall>c \<in> set g. \<not> isLineTerminator c"
      "post = [] \<or> isLineTerminator (hd post)"
    using 3 [OF that] 4 by simp
  from 1 2 5 occ show ?thesis by blast
qed

theorem number_decoding_witness:
  "getNumber (Str ''ACCESS_NUMBER:123456:79001234567'' :: unit body) =
     Inr \<lparr>activationId = Num 123456, phoneNumber = ''79001234567''\<rparr>
   \<and> getNumber (Str ''ACCESS_NUMBER:12:34:56'' :: unit body) =
     Inr \<lparr>activationId = Num 12, phoneNumber = ''34:56''\<rparr>
   \<and> getNumber (Str ''ACCESS_NUMBER:9007199254740993:1'' :: unit body) =
     Inr \<lparr>activationId = Num 9007199254740992, phoneNumber = ''1''\<rparr>
   \<and> getNumber (Str ''ACCESS_NUMBER:'' :: unit body) =
       Inl (HeroSMSError ''PARSE_ERROR'' ''Unexpected number response: ACCESS_NUMBER:''
             ''ACCESS_NUMBER:'')"
proof -
  have no: "\<not> (\<exists>pre ds c rest. ''ACCESS_NUMBER:'' = pre @ ''ACCESS_NUMBER:'' @ ds @ CHR '':'' # c # rest
               \<and> ds \<noteq> [] \<and> (\<forall>d \<in> set ds. isDigit d) \<and> \<not> isLineTerminator c)"
  proof
    assume "\<exists>pre ds c rest. ''ACCESS_NUMBER:'' = pre @ ''ACCESS_NUMBER:'' @ ds @ CHR '':'' # c # rest
               \<and> ds \<noteq> [] \<and> (\<forall>d \<in> set ds. isDigit d) \<and> \<not> isLineTerminator c"
    then obtain pre ds c rest where
      "''ACCESS_NUMBER:'' = pre @ ''ACCESS_NUMBER:'' @ ds @ CHR '':'' # c # rest"
      by blast
    then have "length ''ACCESS_NUMBER:'' =
                 length (pre @ ''ACCESS_NUMBER:'' @ ds @ CHR '':'' # c # rest)"
      by (rule arg_cong)
    then show False by simp
  qed
  have ok: "checkForErrors ''ACCESS_NUMBER:'' = Inr ()"
    by (simp add: checkForErrors_A)
  have h1: "''123456'' \<noteq> [] \<and> (\<forall>d \<in> set ''123456''. isDigit d) \<and> ''79001234567'' \<noteq> []
              \<and> (\<forall>c \<in> set ''79001234567''. \<not> isLineTerminator c)
              \<and> ([] = [] \<or> isLineTerminator (hd []))"
    by (simp add: isDigit_def isLineTerminator_def)
  have h2: "''12'' \<noteq> [] \<and> (\<forall>d \<in> set ''12''. isDigit d) \<and> ''34:56'' \<noteq> []
              \<and> (\<forall>c \<in> set ''34:56''. \<not> isLineTerminator c)
              \<and> ([] = [] \<or> isLineTerminator (hd []))"
    by (simp add: isDigit_def isLineTerminator_def)
  have h3: "''9007199254740993'' \<noteq> [] \<and> (\<forall>d \<in> set ''9007199254740993''. isDigit d)
              \<and> ''1'' \<noteq> [] \<and> (\<forall>c \<in> set ''1''. \<not> isLineTerminator c)
              \<and> ([] = [] \<or> isLineTerminator (hd []))"
    by (simp add: isDigit_def isLineTerminator_def)
  have v: "digitsValue ''123456'' = 123456" "digitsValue ''12'' = 12"
    "digitsValue ''9007199254740993'' = 9007199254740993"
    by (simp_all add: digitsValue_def digitValue_def)
  have a: "getNumber (Str ''ACCESS_NUMBER:123456:79001234567'' :: unit body) =
     Inr \<lparr>activationId = Num 123456, phoneNumber = ''79001234567''\<rparr>"
  proof -
    have "digitsValue ''123456'' \<le> 2 ^ 53" by (simp add: v)
    with number_decoding [of "''ACCESS_NUMBER:''" "''123456''" "''79001234567''" "[]",
            where ?'j = unit] h1
    have "getNumber (Str (''ACCESS_NUMBER:'' @ ''123456'' @ '':'' @ ''79001234567'' @ [])
            :: unit body) =
          Inr \<lparr>activationId = Num (of_nat (digitsValue ''123456'')),
               phoneNumber = ''79001234567''\<rparr>"
      by blast
    then show ?thesis by (simp add: v)
  qed
  have b: "getNumber (Str ''ACCESS_NUMBER:12:34:56'' :: unit body) =
     Inr \<lparr>activationId = Num 12, phoneNumber = ''34:56''\<rparr>"
  proof -
    have "digitsValue ''12'' \<le> 2 ^ 53" by (simp add: v)
    with number_decoding [of "''ACCESS_NUMBER:''" "''12''" "''34:56''" "[]",
            where ?'j = unit] h2
    have "getNumber (Str (''ACCESS_NUMBER:'' @ ''12'' @ '':'' @ ''34:56'' @ []) :: unit body) =
          Inr \<lparr>activationId = Num (of_nat (digitsValue ''12'')), phoneNumber = ''34:56''\<rparr>"
      by blast
    then show ?thesis by (simp add: v)
  qed
  have c: "getNumber (Str ''ACCESS_NUMBER:'' :: unit body) =
       Inl (HeroSMSError ''PARSE_ERROR'' ''Unexpected number response: ACCESS_NUMBER:''
             ''ACCESS_NUMBER:'')"
    using number_decoding [of "''ACCESS_NUMBER:''" "''12''" "''34:56''" "[]",
            where ?'j = unit] no ok
    by simp
  have d: "getNumber (Str ''ACCESS_NUMBER:9007199254740993:1'' :: unit body) =
     Inr \<lparr>activationId = Num 9007199254740992, phoneNumber = ''1''\<rparr>"
  proof -
    from number_decoding [of "''ACCESS_NUMBER:''" "''9007199254740993''" "''1''" "[]",
            where ?'j = unit] h3
    have "getNumber (Str (''ACCESS_NUMBER:'' @ ''9007199254740993'' @ '':'' @ ''1'' @ [])
            :: unit body) =
          Inr \<lparr>activationId = toNumber False (int (digitsValue ''9007199254740993'')) 1,
               phoneNumber = ''1''\<rparr>"
      by blast
    then show ?thesis by (simp add: v toNumber_rounds)
  qed
  from a b c d show ?thesis by blast
qed

text \<open>
  C5 as stated fails where the remainder has a line terminator, which \<^verbatim>\<open>(.+)\<close> does not
  cross: for \<^verbatim>\<open>ACCESS_NUMBER:1:2\<close>, a line feed and \<^verbatim>\<open>3\<close>, \<open>phoneNumber\<close> is
  \<^verbatim>\<open>2\<close>, not the whole remainder after the second colon, and no \<^verbatim>\<open>PARSE_ERROR\<close> is
  thrown either.
\<close>

theorem number_phone_cut_at_line_end:
  "getNumber (Str (''ACCESS_NUMBER:1:2'' @ [CHR 0x0A] @ ''3'') :: unit body) =
     Inr \<lparr>activationId = Num 1, phoneNumber = ''2''\<rparr>"
proof -
  have "parseInt10 ''1'' = toNumber False 1 1" by (simp add: parse_eval)
  also have "\<dots> = Num 1" by (simp add: round_eval)
  finally show ?thesis
    by (simp add: getNumber_Str checkForErrors_A numberAt_def isDigit_def isLineTerminator_def)
qed

subsection \<open>What the errors carry\<close>

lemma errorCode_errorFor: "errorCode (errorFor c s) = Some c"
  by (simp add: errorFor_def)

lemma scanCodes_code: "scanCodes cs s = Inl e \<Longrightarrow> \<exists>c \<in> set cs. errorCode e = Some c"
  by (induction cs) (auto simp: errorCode_errorFor split: if_splits)

lemma checkForErrors_cases:
  assumes "checkForErrors s = Inl e"
  shows "e = BannedError s (orElse (secondField s) ''unknown'')
         \<or> e = WrongMaxPriceError s (parseFloat (orElse (secondField s) ''0''))
         \<or> (\<exists>c \<in> set errorCodes. errorCode e = Some c)"
  using assms by (auto simp: checkForErrors_def split: if_splits dest: scanCodes_code)

lemma getBalance_raw: "getBalance (Str s) = Inl e \<Longrightarrow> rawResponse e = Some s"
  by (auto simp: getBalance_Str split: sum.splits option.splits dest: checkForErrors_raw)

lemma getNumber_raw: "getNumber (Str s) = Inl e \<Longrightarrow> rawResponse e = Some s"
  by (auto simp: getNumber_Str split: sum.splits option.splits dest: checkForErrors_raw)

lemma getStatus_raw: "getStatus (Str s) = Inl e \<Longrightarrow> rawResponse e = Some s"
  by (auto simp: getStatus_Str split: sum.splits if_splits dest: checkForErrors_raw)

lemma request_raw: "request (Str s) = Inl e \<Longrightarrow> rawResponse e = Some s"
  by (auto simp: request_def split: sum.splits dest: checkForErrors_raw)

text \<open>
  C7. Every error that \<open>checkForErrors\<close>, \<open>request\<close> or one of the three decoders throws
  for a string body \<open>s\<close> has \<open>rawResponse = s\<close>: the errors of the plain codes, the
  authentication errors, \<open>BannedError\<close>, \<open>WrongMaxPriceError\<close> and every
  \<^verbatim>\<open>PARSE_ERROR\<close>. An error of code \<^verbatim>\<open>BANNED\<close> also has the field \<open>bannedUntil\<close> and an
  error of code \<^verbatim>\<open>WRONG_MAX_PRICE\<close> the field \<open>minimumPrice\<close>, with the payload taken
  from the body.
\<close>

theorem errors_carry_raw_response:
  "(checkForErrors s = Inl e \<longrightarrow> rawResponse e = Some s)
   \<and> (request (Str s :: 'j body) = Inl e \<longrightarrow> rawResponse e = Some s)
   \<and> (getBalance (Str s :: 'j body) = Inl e \<longrightarrow> rawResponse e = Some s)
   \<and> (getNumber (Str s :: 'j body) = Inl e \<longrightarrow> rawResponse e = Some s)
   \<and> (getStatus (Str s :: 'j body) = Inl e \<longrightarrow> rawResponse e = Some s)
   \<and> (checkForErrors s = Inl e \<and> errorCode e = Some ''BANNED'' \<longrightarrow>
        bannedUntil e = Some (orElse (secondField s) ''unknown''))
   \<and> (checkForErrors s = Inl e \<and> errorCode e = Some ''WRONG_MAX_PRICE'' \<longrightarrow>
        minimumPrice e = Some (parseFloat (orElse (secondField s) ''0'')))"
proof -
  have banned: "bannedUntil e = Some (orElse (secondField s) ''unknown'')"
    if "checkForErrors s = Inl e" "errorCode e = Some ''BANNED''"
    using checkForErrors_cases [OF that(1)] that(2) by (auto simp: errorCodes_def)
  have price: "minimumPrice e = Some (parseFloat (orElse (secondField s) ''0''))"
    if "checkForErrors s = Inl e" "errorCode e = Some ''WRONG_MAX_PRICE''"
    using checkForErrors_cases [OF that(1)] that(2) by (auto simp: errorCodes_def)
  have raw: "checkForErrors s = Inl e \<longrightarrow> rawResponse e = Some s"
    "request (Str s :: 'j body) = Inl e \<longrightarrow> rawResponse e = Some s"
    "getBalance (Str s :: 'j body) = Inl e \<longrightarrow> rawResponse e = Some s"
    "getNumber (Str s :: 'j body) = Inl e \<longrightarrow> rawResponse e = Some s"
    "getStatus (Str s :: 'j body) = Inl e \<longrightarrow> rawResponse e = Some s"
    using checkForErrors_raw request_raw getBalance_raw getNumber_raw getStatus_raw
    by blast+
  from raw banned price show ?thesis by blast
qed

theorem errors_carry_raw_response_witness:
  "checkForErrors ''BANNED:x'' = Inl (BannedError ''BANNED:x'' ''x'')
   \<and> getBalance (Str ''BANNED:x'' :: unit body) = Inl (BannedError ''BANNED:x'' ''x'')
   \<and> rawResponse (BannedError ''BANNED:x'' ''x'') = Some ''BANNED:x''
   \<and> bannedUntil (BannedError ''BANNED:x'' ''x'') = Some ''x''
   \<and> checkForErrors ''WRONG_MAX_PRICE:2'' = Inl (WrongMaxPriceError ''WRONG_MAX_PRICE:2'' (Num 2))
   \<and> rawResponse (WrongMaxPriceError ''WRONG_MAX_PRICE:2'' (Num 2)) = Some ''WRONG_MAX_PRICE:2''
   \<and> minimumPrice (WrongMaxPriceError ''WRONG_MAX_PRICE:2'' (Num 2)) = Some (Num 2)
   \<and> getStatus (Str ''STATUS_READY'' :: unit body) =
       Inl (HeroSMSError ''PARSE_ERROR'' ''Unexpected status response: STATUS_READY''
             ''STATUS_READY'')
   \<and> rawResponse (HeroSMSError ''PARSE_ERROR'' ''Unexpected status response: STATUS_READY''
        ''STATUS_READY'') = Some ''STATUS_READY''"
proof -
  have b: "checkForErrors ''BANNED:x'' = Inl (BannedError ''BANNED:x'' ''x'')"
    by (simp add: checkForErrors_def secondField_def)
  then have b': "request (Str ''BANNED:x'' :: unit body) = Inl (BannedError ''BANNED:x'' ''x'')"
    "getBalance (Str ''BANNED:x'' :: unit body) = Inl (BannedError ''BANNED:x'' ''x'')"
    "getNumber (Str ''BANNED:x'' :: unit body) = Inl (BannedError ''BANNED:x'' ''x'')"
    "getStatus (Str ''BANNED:x'' :: unit body) = Inl (BannedError ''BANNED:x'' ''x'')"
    by (simp_all only: request_def getBalance_Str getNumber_Str getStatus_Str body.case sum.case)
  have f: "secondField ''BANNED:x'' = Some ''x''" "secondField ''WRONG_MAX_PRICE:2'' = Some ''2''"
    by (simp_all add: secondField_def)
  have p: "parseFloat ''2'' = Num 2"
    by (rule parseFloat_2)
  have w: "checkForErrors ''WRONG_MAX_PRICE:2'' =
             Inl (WrongMaxPriceError ''WRONG_MAX_PRICE:2'' (Num 2))"
    by (simp add: checkForErrors_def f p)
  have g: "getStatus (Str ''STATUS_READY'' :: unit body) =
       Inl (HeroSMSError ''PARSE_ERROR'' ''Unexpected status response: STATUS_READY''
             ''STATUS_READY'')"
    by (simp add: getStatus_Str checkForErrors_S)
  show ?thesis
    using errors_carry_raw_response [of "''BANNED:x''" "BannedError ''BANNED:x'' ''x''",
            where ?'j = unit]
          errors_carry_raw_response [of "''WRONG_MAX_PRICE:2''"
            "WrongMaxPriceError ''WRONG_MAX_PRICE:2'' (Num 2)", where ?'j = unit]
          errors_carry_raw_response [of "''STATUS_READY''"
            "HeroSMSError ''PARSE_ERROR'' ''Unexpected status response: STATUS_READY''
               ''STATUS_READY''", where ?'j = unit]
          b b' w g f p
    by simp
qed

end
